theory Spec2Isabelle
  imports
    Main
    "HOL-Library.Char_ord"
    "HOL-Library.List_Lexorder"
    "HOL-Library.Multiset"
begin

section \<open>The bind and search commands of threebot\<close>

text \<open>
  The two command plugins \<^verbatim>\<open>commands/bind.py\<close> and \<^verbatim>\<open>commands/search.py\<close> are
  embedded as functions from the state of the bot before the call to the outcome of the
  call and the state after it. A raised exception is the left summand of the outcome.
  Strings are byte strings (\<^typ>\<open>string\<close>); their order is the bytewise lexicographic
  one, which is how the database compares text under its default collation.
\<close>

subsection \<open>Data model\<close>

text \<open>
  A row of \<^verbatim>\<open>binds(username, bind)\<close> and a row of
  \<^verbatim>\<open>aliases(commandname, action, author, created)\<close>. The code reads rows by
  position (\<^verbatim>\<open>t[0]\<close>), so rows are tuples. A table is the list of its rows in
  insertion order: the schema puts no uniqueness constraint in the way of two rows with
  one username, hence a list and not a map.
\<close>

type_synonym bind_row = "string \<times> string"
type_synonym alias_row = "string \<times> string \<times> string \<times> string"

record tables =
  binds :: "bind_row list"
  aliases :: "alias_row list"

text \<open>
  The state a command can see or change: the tables as the open connection sees them
  (\<open>conn\<close>, with writes not yet committed), the tables as last committed
  (\<open>committed\<close>), the messages sent with \<^verbatim>\<open>data.reply\<close> and the sounds handed to
  \<^verbatim>\<open>play_sound_or_alias\<close>, both oldest first.
\<close>

record world =
  conn :: tables
  committed :: tables
  replies :: "string list"
  played :: "string list"

text \<open>
  What a command can raise: \<^verbatim>\<open>Exception(msg)\<close> with its message, and the
  \<^verbatim>\<open>ValueError\<close> of \<^verbatim>\<open>int\<close>, kept with the string that did not read as an integer.
\<close>

datatype error =
  Exception string
  | ValueError string

type_synonym 'a result = "error + 'a"

text \<open>
  The helpers of \<^verbatim>\<open>data.util\<close> are not part of the two plugins; they are parameters
  of the model. \<open>resolve_sound_or_alias\<close> and \<open>play_sound_or_alias\<close> either raise
  or return something the plugins ignore; \<open>into_pages\<close> renders the rows into pages.
\<close>

record util =
  resolve_sound_or_alias :: "string \<Rightarrow> unit result"
  play_sound_or_alias :: "string \<Rightarrow> unit result"
  into_pages :: "string list \<Rightarrow> alias_row list \<Rightarrow> string list"

subsection \<open>The database statements the plugins issue\<close>

text \<open>\<^verbatim>\<open>cursor.fetchone()\<close>: the first row of the result, or \<^verbatim>\<open>None\<close>.\<close>

definition fetchone :: "'a list \<Rightarrow> 'a option" where
  "fetchone rows = (case rows of [] \<Rightarrow> None | r # _ \<Rightarrow> Some r)"

text \<open>\<^verbatim>\<open>SELECT * FROM binds WHERE username=?\<close>\<close>

definition select_binds :: "tables \<Rightarrow> string \<Rightarrow> bind_row list" where
  "select_binds t username = filter (\<lambda>r. fst r = username) (binds t)"

text \<open>\<^verbatim>\<open>SELECT bind FROM binds WHERE username=?\<close>\<close>

definition select_bind :: "tables \<Rightarrow> string \<Rightarrow> string list" where
  "select_bind t username = map snd (select_binds t username)"

text \<open>\<^verbatim>\<open>INSERT INTO binds VALUES (?, ?)\<close>\<close>

definition insert_bind :: "tables \<Rightarrow> string \<Rightarrow> string \<Rightarrow> tables" where
  "insert_bind t username b = t\<lparr>binds := binds t @ [(username, b)]\<rparr>"

text \<open>\<^verbatim>\<open>UPDATE binds SET bind=? WHERE username=?\<close>: every row of the user is rewritten.\<close>

definition update_bind :: "tables \<Rightarrow> string \<Rightarrow> string \<Rightarrow> tables" where
  "update_bind t b username =
     t\<lparr>binds := map (\<lambda>r. if fst r = username then (fst r, b) else r) (binds t)\<rparr>"

text \<open>
  \<^verbatim>\<open>SELECT * FROM aliases ORDER BY commandname\<close>. Rows with equal names keep their
  table order.
\<close>

definition select_aliases :: "tables \<Rightarrow> alias_row list" where
  "select_aliases t = sort_key fst (aliases t)"

text \<open>\<^verbatim>\<open>conn.commit()\<close>: what the connection sees becomes the committed state.\<close>

definition commit :: "world \<Rightarrow> world" where
  "commit w = w\<lparr>committed := conn w\<rparr>"

definition reply :: "world \<Rightarrow> string \<Rightarrow> world" where
  "reply w msg = w\<lparr>replies := replies w @ [msg]\<rparr>"

subsection \<open>bind.py\<close>

definition bind_execute :: "util \<Rightarrow> string \<Rightarrow> world \<Rightarrow> string list \<Rightarrow> unit result \<times> world" where
  "bind_execute u author w argv =
     (let results = fetchone (select_bind (conn w) author) in
      if length argv < 1 then
        (case results of
           None \<Rightarrow> (Inl (Exception ''No bind set! Usage: bind [CODE|ALIAS]''), w)
         | Some b \<Rightarrow>
             (case play_sound_or_alias u b of
                Inl e \<Rightarrow> (Inl e, w)
              | Inr _ \<Rightarrow>
                  (Inr (), reply (w\<lparr>played := played w @ [b]\<rparr>) (''Playing bind: '' @ b))))
      else if length argv > 1 then
        (Inl (Exception ''too many arguments. Usage: bind [CODE|ALIAS]''), w)
      else
        (case resolve_sound_or_alias u (argv ! 0) of
           Inl e \<Rightarrow> (Inl e, w)
         | Inr _ \<Rightarrow>
             (let results = fetchone (select_binds (conn w) author);
                  w1 = (case results of
                          None \<Rightarrow> w\<lparr>conn := insert_bind (conn w) author (argv ! 0)\<rparr>
                        | Some _ \<Rightarrow> w\<lparr>conn := update_bind (conn w) (argv ! 0) author\<rparr>);
                  w2 = commit w1
              in (Inr (), reply w2 (''Set bind to '' @ argv ! 0 @ ''.'')))))"

subsection \<open>Strings and integers of the interpreter\<close>

text \<open>\<^verbatim>\<open>s.startswith(p)\<close>: \<open>p\<close> is a literal prefix of \<open>s\<close>, character by character.\<close>

fun startswith :: "string \<Rightarrow> string \<Rightarrow> bool" where
  "startswith s [] = True"
| "startswith [] (p # ps) = False"
| "startswith (c # cs) (p # ps) = (c = p \<and> startswith cs ps)"

text \<open>
  \<^verbatim>\<open>int(s)\<close> on a string, base ten, as the interpreter does it. Two things it takes
  from the interpreter and not from the string are parameters here: the bound on the
  number of digits (\<^verbatim>\<open>sys.get_int_max_str_digits()\<close>; 0 is no bound, which is also how
  an interpreter without the bound behaves) and the translation of a string with a
  character beyond ASCII, which replaces each decimal digit and each space of the
  Unicode tables by its ASCII counterpart. A string is the list of the bytes of its
  UTF-8 form, so the ASCII strings are the ones with no byte of 128 or more.
\<close>

record interp =
  int_max_str_digits :: nat
  decimal_and_space_to_ascii :: "string \<Rightarrow> string"

definition is_ascii :: "string \<Rightarrow> bool" where
  "is_ascii s = list_all (\<lambda>c. \<not> digit7 c) s"

text \<open>The white space that is skipped around the number: tab to carriage return, and space.\<close>

definition is_space :: "char \<Rightarrow> bool" where
  "is_space c \<longleftrightarrow> c \<in> set [CHR 0x09, CHR 0x0A, CHR 0x0B, CHR 0x0C, CHR 0x0D, CHR 0x20]"

definition strip :: "string \<Rightarrow> string" where
  "strip s = rev (dropWhile is_space (rev (dropWhile is_space s)))"

definition digit_val :: "char \<Rightarrow> nat option" where
  "digit_val =
     map_of [(CHR ''0'', 0), (CHR ''1'', 1), (CHR ''2'', 2), (CHR ''3'', 3), (CHR ''4'', 4),
             (CHR ''5'', 5), (CHR ''6'', 6), (CHR ''7'', 7), (CHR ''8'', 8), (CHR ''9'', 9)]"

text \<open>
  The digits after the sign. \<open>pd\<close> tells whether the character before was a digit: an
  underscore is accepted only after a digit, and the string must end on a digit.
\<close>

fun parse_digits :: "nat \<Rightarrow> bool \<Rightarrow> string \<Rightarrow> nat option" where
  "parse_digits acc pd [] = (if pd then Some acc else None)"
| "parse_digits acc pd (c # cs) =
     (if c = CHR ''_'' then (if pd then parse_digits acc False cs else None)
      else (case digit_val c of
              None \<Rightarrow> None
            | Some d \<Rightarrow> parse_digits (10 * acc + d) True cs))"

text \<open>
  The bound on the digits: it is looked at for more than 640 digits only, and a bound of
  0 switches it off. The digits are counted without the underscores, leading zeros
  included.
\<close>

definition over_limit :: "interp \<Rightarrow> nat \<Rightarrow> bool" where
  "over_limit py digits \<longleftrightarrow>
     digits > 640 \<and> int_max_str_digits py > 0 \<and> digits > int_max_str_digits py"

definition parse_number :: "interp \<Rightarrow> string \<Rightarrow> nat option" where
  "parse_number py ds =
     (if over_limit py (length (filter (\<lambda>c. c \<noteq> CHR ''_'') ds)) then None
      else parse_digits 0 False ds)"

text \<open>
  The number in an ASCII buffer: white space is stripped at both ends, one sign may come
  first, then the digits. Anything else raises \<^verbatim>\<open>ValueError\<close> (here \<open>None\<close>).
\<close>

definition long_from_string :: "interp \<Rightarrow> string \<Rightarrow> int option" where
  "long_from_string py a =
     (case strip a of
        [] \<Rightarrow> None
      | c # cs \<Rightarrow>
          if c = CHR ''-'' then map_option (\<lambda>n. - int n) (parse_number py cs)
          else if c = CHR ''+'' then map_option int (parse_number py cs)
          else map_option int (parse_number py (c # cs)))"

definition py_int :: "interp \<Rightarrow> string \<Rightarrow> int option" where
  "py_int py s =
     long_from_string py (if is_ascii s then s else decimal_and_space_to_ascii py s)"

text \<open>
  \<^verbatim>\<open>str(n)\<close>, as \<^verbatim>\<open>'{}'.format(n)\<close> renders an integer. The numbers the search command
  writes are a page number and the length of a list, far below any bound on digits.
\<close>

fun str_nat :: "nat \<Rightarrow> string" where
  "str_nat n =
     (if n < 10 then [''0123456789'' ! n]
      else str_nat (n div 10) @ [''0123456789'' ! (n mod 10)])"

declare str_nat.simps [simp del]

definition py_str_int :: "int \<Rightarrow> string" where
  "py_str_int i = (if i < 0 then CHR ''-'' # str_nat (nat (- i)) else str_nat (nat i))"

subsection \<open>search.py\<close>

text \<open>Lines 11 to 16: the rows in name order, then those whose name starts with the keyword.\<close>

definition matching_aliases :: "tables \<Rightarrow> string \<Rightarrow> alias_row list" where
  "matching_aliases db keyword = filter (\<lambda>t. startswith (fst t) keyword) (select_aliases db)"

definition search_execute :: "interp \<Rightarrow> util \<Rightarrow> world \<Rightarrow> string list \<Rightarrow> unit result \<times> world" where
  "search_execute py u w argv =
     (if length argv < 1 then (Inl (Exception ''a keyword is required''), w)
      else
        (let rows = matching_aliases (conn w) (argv ! 0) in
         if length rows < 1 then
           (Inl (Exception (''couldn't find any aliases like '' @ [CHR 0x27] @ argv ! 0 @ [CHR 0x27])), w)
         else
           (let pages = into_pages u [''Alias'', ''Action'', ''Author'', ''Created''] rows in
            case (if length argv > 1
                  then (case py_int py (argv ! 1) of
                          None \<Rightarrow> Inl (ValueError (argv ! 1))
                        | Some n \<Rightarrow> Inr (n - 1))
                  else Inr 0) of
              Inl e \<Rightarrow> (Inl e, w)
            | Inr page \<Rightarrow>
                if page < 0 \<or> page \<ge> int (length pages) then
                  (Inl (Exception ''invalid page number''), w)
                else
                  (Inr (),
                   reply
                     (reply w (''Showing page '' @ py_str_int (page + 1) @ '' of ''
                               @ py_str_int (int (length pages))))
                     (pages ! nat page)))))"

subsection \<open>A small bot to run the commands on\<close>

definition example_tables :: tables where
  "example_tables =
     \<lparr>binds = [(''bob'', ''airhorn'')],
      aliases = [(''world'', ''w1'', ''bob'', ''2020-03-01''),
                 (''help'', ''h7'', ''alice'', ''2020-03-02''),
                 (''hello'', ''h2'', ''bob'', ''2020-03-03'')]\<rparr>"

definition example_world :: world where
  "example_world =
     \<lparr>conn = example_tables, committed = example_tables, replies = [], played = []\<rparr>"

text \<open>Every token but \<open>nope\<close> is a sound; a page holds the name of one alias.\<close>

definition example_util :: util where
  "example_util =
     \<lparr>resolve_sound_or_alias =
        (\<lambda>t. if t = ''nope'' then Inl (Exception ''unknown sound'') else Inr ()),
      play_sound_or_alias =
        (\<lambda>t. if t = ''nope'' then Inl (Exception ''unknown sound'') else Inr ()),
      into_pages = (\<lambda>cols rows. map fst rows)\<rparr>"

text \<open>
  An interpreter with the bound at 4300 digits. Every argument of the examples is ASCII,
  so its translation is never asked; it knows no digit and no space beyond ASCII.
\<close>

definition example_interp :: interp where
  "example_interp =
     \<lparr>int_max_str_digits = 4300, decimal_and_space_to_ascii = (\<lambda>s. ''?'')\<rparr>"

subsection \<open>Properties of the bind command\<close>

lemma select_binds_none:
  assumes "\<forall>r \<in> set (binds t). fst r \<noteq> a"
  shows "select_binds t a = []"
  using assms by (simp add: select_binds_def filter_empty_conv)

lemma filter_user_update:
  "filter (\<lambda>r. fst r = a) (map (\<lambda>r. if fst r = a then (fst r, b) else r) xs) =
     map (\<lambda>r. (a, b)) (filter (\<lambda>r. fst r = a) xs)"
  by (induction xs) auto

lemma filter_other_update:
  assumes "x \<noteq> a"
  shows "filter (\<lambda>r. fst r = x) (map (\<lambda>r. if fst r = a then (fst r, b) else r) xs) =
           filter (\<lambda>r. fst r = x) xs"
  using assms by (induction xs) auto

text \<open>What a successful one-argument call leaves in the state.\<close>

lemma bind_execute_set:
  assumes "resolve_sound_or_alias u t = Inr ()"
  shows "bind_execute u a w [t] =
           (Inr (),
            reply (commit (w\<lparr>conn :=
               (if select_binds (conn w) a = [] then insert_bind (conn w) a t
                else update_bind (conn w) t a)\<rparr>)) (''Set bind to '' @ t @ ''.''))"
  using assms
  by (simp add: bind_execute_def fetchone_def Let_def split: list.splits)

lemma user_rows_after_set:
  assumes "resolve_sound_or_alias u t = Inr ()"
  shows "select_binds (conn (snd (bind_execute u a w [t]))) a =
           (if select_binds (conn w) a = [] then [(a, t)]
            else map (\<lambda>r. (a, t)) (select_binds (conn w) a))"
  by (simp add: bind_execute_set [OF assms] reply_def commit_def select_binds_def
      insert_bind_def update_bind_def filter_user_update)

lemma committed_after_set:
  assumes "resolve_sound_or_alias u t = Inr ()"
  shows "committed (snd (bind_execute u a w [t])) = conn (snd (bind_execute u a w [t]))"
  by (simp add: bind_execute_set [OF assms] reply_def commit_def)

text \<open>The calls of the bind command keep "at most one row for each user".\<close>

lemma bind_execute_keeps_unique:
  assumes "length (select_binds (conn w) x) \<le> 1"
  shows "length (select_binds (conn (snd (bind_execute u a w argv))) x) \<le> 1"
proof (cases "length argv = 1 \<and> resolve_sound_or_alias u (argv ! 0) = Inr ()")
  case True
  then obtain t where argv: "argv = [t]" and ok: "resolve_sound_or_alias u t = Inr ()"
    by (cases argv) auto
  show ?thesis
  proof (cases "x = a")
    case True
    with assms show ?thesis
      by (simp add: argv user_rows_after_set [OF ok])
  next
    case False
    have "select_binds (conn (snd (bind_execute u a w [t]))) x = select_binds (conn w) x"
      using False
      by (simp add: bind_execute_set [OF ok] reply_def commit_def select_binds_def
          insert_bind_def update_bind_def filter_other_update)
    with assms show ?thesis by (simp add: argv)
  qed
next
  case False
  then have "conn (snd (bind_execute u a w argv)) = conn w"
    by (cases argv; cases "tl argv")
       (auto simp add: bind_execute_def reply_def Let_def split: option.splits sum.splits)
  with assms show ?thesis by simp
qed

text \<open>
  C8. Whatever the state, a call of the bind command with two or more arguments raises
  the "too many arguments" exception and returns the state as it was given.
\<close>

theorem bind_too_many_arguments:
  assumes "2 \<le> length argv"
  shows "bind_execute u author w argv =
           (Inl (Exception ''too many arguments. Usage: bind [CODE|ALIAS]''), w)"
  using assms by (auto simp add: bind_execute_def Let_def)

theorem bind_too_many_arguments_witness:
  "2 \<le> length [''airhorn'', ''tuba''] \<and>
   bind_execute example_util ''bob'' example_world [''airhorn'', ''tuba''] =
     (Inl (Exception ''too many arguments. Usage: bind [CODE|ALIAS]''), example_world)"
  using bind_too_many_arguments
    [where argv = "[''airhorn'', ''tuba'']" and u = example_util and author = "''bob''"
       and w = example_world]
  by simp

text \<open>
  C9. A call of the bind command with no argument leaves the tables as they were, those
  the connection sees and those committed, whether it plays the bind or raises.
\<close>

theorem bind_no_arguments_read_only:
  "conn (snd (bind_execute u author w [])) = conn w \<and>
   committed (snd (bind_execute u author w [])) = committed w"
  by (simp add: bind_execute_def reply_def split: option.splits sum.splits)

theorem bind_no_arguments_read_only_witness:
  "conn (snd (bind_execute example_util ''bob'' example_world [])) = conn example_world \<and>
   committed (snd (bind_execute example_util ''bob'' example_world [])) =
     committed example_world"
  using bind_no_arguments_read_only [of example_util "''bob''" example_world]
  by simp

text \<open>
  C3. When the sound utility rejects the only argument, the bind command raises that
  error and returns the state as it was given: nothing was inserted, updated or
  committed.
\<close>

theorem bind_unresolved_leaves_state:
  assumes "resolve_sound_or_alias u t = Inl e"
  shows "bind_execute u author w [t] = (Inl e, w)"
  using assms by (simp add: bind_execute_def)

theorem bind_unresolved_leaves_state_witness:
  "resolve_sound_or_alias example_util ''nope'' = Inl (Exception ''unknown sound'') \<and>
   bind_execute example_util ''bob'' example_world [''nope''] =
     (Inl (Exception ''unknown sound''), example_world)"
proof -
  have r: "resolve_sound_or_alias example_util ''nope'' = Inl (Exception ''unknown sound'')"
    by (simp add: example_util_def)
  from bind_unresolved_leaves_state [OF r] r show ?thesis by simp
qed

text \<open>
  C6. For a user with no row in the binds table, a call of the bind command with no
  argument raises the "No bind set!" exception; the state comes back as it was given,
  so no sound was played and no reply sent.
\<close>

theorem bind_no_bind_set:
  assumes "\<forall>r \<in> set (binds (conn w)). fst r \<noteq> author"
  shows "bind_execute u author w [] =
           (Inl (Exception ''No bind set! Usage: bind [CODE|ALIAS]''), w)"
  by (simp add: bind_execute_def select_bind_def select_binds_none [OF assms] fetchone_def)

theorem bind_no_bind_set_witness:
  "''alice'' \<notin> fst ` set (binds (conn example_world)) \<and>
   bind_execute example_util ''alice'' example_world [] =
     (Inl (Exception ''No bind set! Usage: bind [CODE|ALIAS]''), example_world)"
proof -
  have h: "\<forall>r \<in> set (binds (conn example_world)). fst r \<noteq> ''alice''"
    by (simp add: example_world_def example_tables_def)
  from bind_no_bind_set [OF h] h show ?thesis by auto
qed

text \<open>
  C2. When the sound utility resolves and plays the token \<open>t\<close>, the call of the bind
  command with the argument \<open>t\<close> succeeds, and the call with no argument that follows it
  plays \<open>t\<close> and replies "Playing bind: " followed by \<open>t\<close>.
\<close>

theorem bind_then_replay:
  assumes "resolve_sound_or_alias u t = Inr ()"
    and "play_sound_or_alias u t = Inr ()"
  shows "fst (bind_execute u author w [t]) = Inr () \<and>
         bind_execute u author (snd (bind_execute u author w [t])) [] =
           (Inr (),
            reply (snd (bind_execute u author w [t])
                     \<lparr>played := played (snd (bind_execute u author w [t])) @ [t]\<rparr>)
              (''Playing bind: '' @ t))"
proof -
  let ?w1 = "snd (bind_execute u author w [t])"
  have "select_binds (conn ?w1) author \<noteq> []"
    by (simp add: user_rows_after_set [OF assms(1)])
  moreover have "\<forall>r \<in> set (select_binds (conn ?w1) author). snd r = t"
    by (auto simp add: user_rows_after_set [OF assms(1)])
  ultimately have "fetchone (select_bind (conn ?w1) author) = Some t"
    by (cases "select_binds (conn ?w1) author") (simp_all add: fetchone_def select_bind_def)
  then have "bind_execute u author ?w1 [] =
      (Inr (), reply (?w1\<lparr>played := played ?w1 @ [t]\<rparr>) (''Playing bind: '' @ t))"
    by (simp add: bind_execute_def assms(2))
  then show ?thesis
    by (simp add: bind_execute_set [OF assms(1)])
qed

theorem bind_then_replay_witness:
  "resolve_sound_or_alias example_util ''tuba'' = Inr () \<and>
   play_sound_or_alias example_util ''tuba'' = Inr () \<and>
   replies (snd (bind_execute example_util ''bob''
                   (snd (bind_execute example_util ''bob'' example_world [''tuba''])) [])) =
     [''Set bind to tuba.'', ''Playing bind: tuba'']"
proof -
  have r: "resolve_sound_or_alias example_util ''tuba'' = Inr ()"
    and p: "play_sound_or_alias example_util ''tuba'' = Inr ()"
    by (simp_all add: example_util_def)
  have "replies (snd (bind_execute example_util ''bob'' example_world [''tuba''])) =
      [''Set bind to tuba.'']"
    by (simp add: bind_execute_set [OF r] reply_def commit_def example_world_def)
  with bind_then_replay [OF r p, of "''bob''" example_world] r p show ?thesis
    by (simp add: reply_def)
qed

text \<open>
  C1. In a state with at most one row for the user in the binds table, two calls of
  the bind command in a row, with tokens \<open>t1\<close> and then \<open>t2\<close> that the sound utility
  resolves, both succeed; the second adds no row to the table, and afterwards the rows
  of the user are the single row with the bind \<open>t2\<close>, also in the committed tables.
\<close>

theorem bind_twice_one_row:
  assumes "resolve_sound_or_alias u t1 = Inr ()"
    and "resolve_sound_or_alias u t2 = Inr ()"
    and "length (filter (\<lambda>r. fst r = author) (binds (conn w))) \<le> 1"
  shows "fst (bind_execute u author w [t1]) = Inr () \<and>
         fst (bind_execute u author (snd (bind_execute u author w [t1])) [t2]) = Inr () \<and>
         filter (\<lambda>r. fst r = author)
           (binds (conn (snd (bind_execute u author
              (snd (bind_execute u author w [t1])) [t2])))) = [(author, t2)] \<and>
         filter (\<lambda>r. fst r = author)
           (binds (committed (snd (bind_execute u author
              (snd (bind_execute u author w [t1])) [t2])))) = [(author, t2)] \<and>
         length (binds (conn (snd (bind_execute u author
              (snd (bind_execute u author w [t1])) [t2])))) =
           length (binds (conn (snd (bind_execute u author w [t1]))))"
proof -
  let ?w1 = "snd (bind_execute u author w [t1])"
  let ?w2 = "snd (bind_execute u author ?w1 [t2])"
  have inv: "length (select_binds (conn w) author) \<le> 1"
    using assms(3) by (simp add: select_binds_def)
  have one: "select_binds (conn ?w1) author = [(author, t1)]"
    using inv
    by (cases "select_binds (conn w) author")
       (simp_all add: user_rows_after_set [OF assms(1)])
  then have two: "select_binds (conn ?w2) author = [(author, t2)]"
    by (simp add: user_rows_after_set [OF assms(2)])
  have len: "length (binds (conn ?w2)) = length (binds (conn ?w1))"
    using one
    by (simp add: bind_execute_set [OF assms(2), of author ?w1] reply_def commit_def
        update_bind_def)
  from two committed_after_set [OF assms(2), of author ?w1] len show ?thesis
    by (simp add: select_binds_def bind_execute_set [OF assms(1)]
        bind_execute_set [OF assms(2)])
qed

theorem bind_twice_one_row_witness:
  "resolve_sound_or_alias example_util ''tuba'' = Inr () \<and>
   resolve_sound_or_alias example_util ''gong'' = Inr () \<and>
   length (filter (\<lambda>r. fst r = ''alice'') (binds (conn example_world))) \<le> 1 \<and>
   filter (\<lambda>r. fst r = ''alice'')
     (binds (conn (snd (bind_execute example_util ''alice''
        (snd (bind_execute example_util ''alice'' example_world [''tuba''])) [''gong''])))) =
     [(''alice'', ''gong'')]"
proof -
  have r1: "resolve_sound_or_alias example_util ''tuba'' = Inr ()"
    and r2: "resolve_sound_or_alias example_util ''gong'' = Inr ()"
    by (simp_all add: example_util_def)
  have u: "length (filter (\<lambda>r. fst r = ''alice'') (binds (conn example_world))) \<le> 1"
    by (simp add: example_world_def example_tables_def)
  from bind_twice_one_row [OF r1 r2 u] r1 r2 u show ?thesis by simp
qed

subsection \<open>Reading and writing integers\<close>

lemma dropWhile_keeps:
  assumes "c \<in> set xs" and "\<not> P c"
  shows "c \<in> set (dropWhile P xs)"
  using assms by (induction xs) auto

lemma strip_keeps:
  assumes "c \<in> set s" and "\<not> is_space c"
  shows "c \<in> set (strip s)"
  using assms by (simp add: strip_def dropWhile_keeps)

lemma strip_no_space:
  assumes "\<forall>c \<in> set s. \<not> is_space c"
  shows "strip s = s"
proof -
  have dw: "dropWhile is_space xs = xs" if "\<forall>c \<in> set xs. \<not> is_space c" for xs
    using that by (cases xs) auto
  have "dropWhile is_space s = s"
    using assms by (rule dw)
  moreover have "dropWhile is_space (rev s) = rev s"
    using assms by (intro dw) simp
  ultimately show ?thesis
    by (simp add: strip_def)
qed

lemma parse_digits_rejects:
  assumes "c \<in> set s" and "digit_val c = None" and "c \<noteq> CHR ''_''"
  shows "parse_digits acc pd s = None"
  using assms by (induction s arbitrary: acc pd) (auto split: option.splits)

lemma parse_number_rejects:
  assumes "c \<in> set s" and "digit_val c = None" and "c \<noteq> CHR ''_''"
  shows "parse_number py s = None"
  using parse_digits_rejects [OF assms] by (simp add: parse_number_def)

lemma long_from_string_rejects:
  assumes "c \<in> set s" and "digit_val c = None" and "c \<noteq> CHR ''_''"
    and "c \<noteq> CHR ''+''" and "c \<noteq> CHR ''-''" and "\<not> is_space c"
  shows "long_from_string py s = None"
proof (cases "strip s")
  case Nil
  then show ?thesis by (simp add: long_from_string_def)
next
  case (Cons d ds)
  have in_strip: "c \<in> set (d # ds)"
    using strip_keeps [OF assms(1) assms(6)] Cons by simp
  have whole: "parse_number py (d # ds) = None"
    using in_strip assms(2,3) by (rule parse_number_rejects)
  have tail: "parse_number py ds = None" if "d = CHR ''+'' \<or> d = CHR ''-''"
  proof -
    from that in_strip assms(4,5) have "c \<in> set ds" by auto
    then show ?thesis using assms(2,3) by (rule parse_number_rejects)
  qed
  show ?thesis
    using whole tail by (auto simp add: long_from_string_def Cons)
qed

text \<open>
  An ASCII string with a character that is no digit, sign, underscore or white space
  does not read as an integer.
\<close>

lemma py_int_rejects:
  assumes "is_ascii s"
    and "c \<in> set s" and "digit_val c = None" and "c \<noteq> CHR ''_''"
    and "c \<noteq> CHR ''+''" and "c \<noteq> CHR ''-''" and "\<not> is_space c"
  shows "py_int py s = None"
  using long_from_string_rejects [OF assms(2-7)] assms(1) by (simp add: py_int_def)

text \<open>The separator characters 28 to 31 are no white space here.\<close>

lemma py_int_separator: "py_int py [CHR 0x1C, CHR ''2''] = None"
  by (rule py_int_rejects [of _ "CHR 0x1C"])
     (simp_all add: is_ascii_def digit_val_def is_space_def)

text \<open>With the bound at 4300 digits, 4301 digits do not read as an integer.\<close>

lemma py_int_digit_limit:
  assumes "int_max_str_digits py = 4300"
  shows "py_int py (replicate 4301 CHR ''9'') = None"
proof -
  have "(4301::nat) = Suc 4300" by simp
  then have nines: "replicate 4301 CHR ''9'' = CHR ''9'' # replicate 4300 CHR ''9''"
    by (simp only: replicate_Suc)
  have ascii: "is_ascii (replicate 4301 CHR ''9'')"
    by (simp add: is_ascii_def list_all_iff)
  have "\<forall>c \<in> set (replicate 4301 CHR ''9''). \<not> is_space c"
    by (simp add: is_space_def)
  then have "strip (replicate 4301 CHR ''9'') = CHR ''9'' # replicate 4300 CHR ''9''"
    using nines by (simp only: strip_no_space)
  moreover have "parse_number py (CHR ''9'' # replicate 4300 CHR ''9'') = None"
    by (simp add: parse_number_def over_limit_def assms)
  ultimately show ?thesis
    using ascii by (simp add: py_int_def long_from_string_def)
qed

text \<open>
  A string beyond ASCII reads as what its translation reads as: where the translation
  of the Arabic-Indic digit two (bytes D9 A2) is the digit 2, the string reads as 2.
\<close>

lemma py_int_beyond_ascii:
  assumes "decimal_and_space_to_ascii py [CHR 0xD9, CHR 0xA2] = ''2''"
  shows "py_int py [CHR 0xD9, CHR 0xA2] = Some 2"
  by (simp add: py_int_def is_ascii_def assms long_from_string_def strip_def is_space_def
      parse_number_def over_limit_def digit_val_def)

lemma digit_char:
  assumes "d < 10"
  shows "digit_val (''0123456789'' ! d) = Some d"
    and "''0123456789'' ! d \<noteq> CHR ''_''"
    and "''0123456789'' ! d \<noteq> CHR ''+''"
    and "''0123456789'' ! d \<noteq> CHR ''-''"
    and "\<not> is_space (''0123456789'' ! d)"
    and "\<not> digit7 (''0123456789'' ! d)"
proof -
  from assms have "d = 0 \<or> d = 1 \<or> d = 2 \<or> d = 3 \<or> d = 4 \<or> d = 5 \<or> d = 6 \<or> d = 7
      \<or> d = 8 \<or> d = 9"
    by arith
  then show "digit_val (''0123456789'' ! d) = Some d"
    and "''0123456789'' ! d \<noteq> CHR ''_''"
    and "''0123456789'' ! d \<noteq> CHR ''+''"
    and "''0123456789'' ! d \<noteq> CHR ''-''"
    and "\<not> is_space (''0123456789'' ! d)"
    and "\<not> digit7 (''0123456789'' ! d)"
    by (auto simp add: digit_val_def is_space_def)
qed

lemma str_nat_digits: "c \<in> set (str_nat n) \<Longrightarrow> \<exists>d < 10. c = ''0123456789'' ! d"
proof (induction n rule: str_nat.induct)
  case (1 n)
  show ?case
  proof (cases "n < 10")
    case True
    with "1.prems" show ?thesis
      by (auto simp add: str_nat.simps [of n])
  next
    case False
    with "1.prems" consider "c \<in> set (str_nat (n div 10))" | "c = ''0123456789'' ! (n mod 10)"
      by (auto simp add: str_nat.simps [of n])
    then show ?thesis
    proof cases
      case 1
      with False show ?thesis by (rule "1.IH")
    next
      case 2
      then show ?thesis by (intro exI [of _ "n mod 10"]) simp
    qed
  qed
qed

lemma str_nat_not_Nil: "str_nat n \<noteq> []"
  by (simp add: str_nat.simps [of n])

lemma parse_digits_str_nat:
  "parse_digits 0 pd (str_nat n @ ys) = parse_digits n True ys"
proof (induction n arbitrary: pd ys rule: str_nat.induct)
  case (1 n)
  show ?case
  proof (cases "n < 10")
    case True
    then show ?thesis
      by (simp add: str_nat.simps [of n] digit_char)
  next
    case False
    have d: "n mod 10 < 10" by simp
    have "parse_digits 0 pd (str_nat n @ ys) =
        parse_digits 0 pd (str_nat (n div 10) @ (''0123456789'' ! (n mod 10)) # ys)"
      using False by (simp add: str_nat.simps [of n])
    also have "\<dots> = parse_digits (n div 10) True ((''0123456789'' ! (n mod 10)) # ys)"
      using False by (rule "1.IH")
    also have "\<dots> = parse_digits (10 * (n div 10) + n mod 10) True ys"
      by (simp add: digit_char [OF d])
    finally show ?thesis by simp
  qed
qed

text \<open>What \<^verbatim>\<open>str\<close> writes in at most 640 digits, \<^verbatim>\<open>int\<close> reads back.\<close>

lemma py_int_py_str_int:
  assumes "length (str_nat (nat \<bar>i\<bar>)) \<le> 640"
  shows "py_int py (py_str_int i) = Some i"
proof -
  have ns: "\<forall>c \<in> set (str_nat n). \<not> is_space c" for n
    using str_nat_digits digit_char(5) by blast
  have no_us: "filter (\<lambda>c. c \<noteq> CHR ''_'') (str_nat n) = str_nat n" for n
  proof (intro filter_True ballI)
    fix c
    assume "c \<in> set (str_nat n)"
    then obtain d where "d < 10" and "c = ''0123456789'' ! d"
      using str_nat_digits by blast
    then show "c \<noteq> CHR ''_''"
      using digit_char(2) by simp
  qed
  have asc: "list_all (\<lambda>c. \<not> digit7 c) (str_nat n)" for n
    using str_nat_digits digit_char(6) by (auto simp add: list_all_iff)
  have parse: "parse_digits 0 False (str_nat n) = Some n" for n
    using parse_digits_str_nat [of False n "[]"] by simp
  have number: "parse_number py (str_nat n) = Some n" if "length (str_nat n) \<le> 640" for n
    using that by (simp add: parse_number_def over_limit_def no_us parse)
  show ?thesis
  proof (cases "i < 0")
    case True
    then have abs: "nat \<bar>i\<bar> = nat (- i)" by simp
    have "\<not> is_space CHR ''-''" by (simp add: is_space_def)
    with ns have "strip (CHR ''-'' # str_nat (nat (- i))) = CHR ''-'' # str_nat (nat (- i))"
      by (intro strip_no_space) simp
    moreover have "is_ascii (CHR ''-'' # str_nat (nat (- i)))"
      using asc by (simp add: is_ascii_def)
    moreover have "parse_number py (str_nat (nat (- i))) = Some (nat (- i))"
      using assms abs by (intro number) simp
    ultimately show ?thesis
      using True by (simp add: py_int_def long_from_string_def py_str_int_def)
  next
    case False
    then have abs: "nat \<bar>i\<bar> = nat i" by simp
    obtain d ds where ds: "str_nat (nat i) = d # ds"
      using str_nat_not_Nil [of "nat i"] by (cases "str_nat (nat i)") auto
    then have "d \<in> set (str_nat (nat i))" by simp
    then obtain k where k: "k < 10" and dk: "d = ''0123456789'' ! k"
      using str_nat_digits by blast
    have "d \<noteq> CHR ''+''" and "d \<noteq> CHR ''-''"
      using digit_char(3,4) [OF k] by (simp_all add: dk)
    moreover have "strip (str_nat (nat i)) = d # ds"
      using ns [of "nat i"] ds by (simp add: strip_no_space)
    moreover have "is_ascii (str_nat (nat i))"
      using asc by (simp add: is_ascii_def)
    moreover have "parse_number py (d # ds) = Some (nat i)"
      using number [of "nat i"] assms abs ds by simp
    ultimately show ?thesis
      using False by (simp add: py_int_def long_from_string_def py_str_int_def)
  qed
qed

subsection \<open>Properties of the search command\<close>

lemma startswith_iff: "startswith s p \<longleftrightarrow> (\<exists>rest. s = p @ rest)"
  by (induction s p rule: startswith.induct) auto

lemma matching_aliases_nonempty_iff:
  "matching_aliases t kw \<noteq> [] \<longleftrightarrow> (\<exists>r \<in> set (aliases t). \<exists>rest. fst r = kw @ rest)"
  by (simp add: matching_aliases_def select_aliases_def filter_empty_conv startswith_iff)

lemma mset_matching_names:
  "image_mset fst (mset (matching_aliases t kw)) =
     filter_mset (\<lambda>n. startswith n kw) (image_mset fst (mset (aliases t)))"
  by (simp add: matching_aliases_def select_aliases_def filter_mset_image_mset)

lemma sorted_matching_names: "sorted (map fst (matching_aliases t kw))"
  unfolding matching_aliases_def select_aliases_def
  by (rule sorted_filter) (rule sorted_sort_key)

text \<open>
  C4. The rows the search command keeps are the rows of the aliases table whose name
  is the keyword followed by some rest, each as often as the table holds it, and they
  come in the lexicographic order of their names. When the names in the table are
  hello, help and world, in any order, the names kept for the keyword hel are hello and
  then help.
\<close>

theorem search_prefix_filter_sorted:
  "mset (matching_aliases t kw) =
     filter_mset (\<lambda>r. \<exists>rest. fst r = kw @ rest) (mset (aliases t)) \<and>
   sorted (map fst (matching_aliases t kw)) \<and>
   (mset (map fst (aliases t)) = {#''hello'', ''help'', ''world''#} \<longrightarrow>
      map fst (matching_aliases t ''hel'') = [''hello'', ''help''])"
proof (intro conjI impI)
  show "mset (matching_aliases t kw) =
      filter_mset (\<lambda>r. \<exists>rest. fst r = kw @ rest) (mset (aliases t))"
    by (simp add: matching_aliases_def select_aliases_def startswith_iff)
  show "sorted (map fst (matching_aliases t kw))"
    by (rule sorted_matching_names)
  assume names: "mset (map fst (aliases t)) = {#''hello'', ''help'', ''world''#}"
  have "mset (map fst (matching_aliases t ''hel'')) = mset [''hello'', ''help'']"
    using names by (simp add: mset_matching_names)
  then have "sort [''hello'', ''help''] = map fst (matching_aliases t ''hel'')"
    using sorted_matching_names by (intro properties_for_sort) simp_all
  then show "map fst (matching_aliases t ''hel'') = [''hello'', ''help'']"
    by simp
qed

theorem search_prefix_filter_sorted_witness:
  "mset (map fst (aliases example_tables)) = {#''hello'', ''help'', ''world''#} \<and>
   map fst (matching_aliases example_tables ''hel'') = [''hello'', ''help''] \<and>
   matching_aliases example_tables ''Hel'' = []"
proof -
  have names: "mset (map fst (aliases example_tables)) = {#''hello'', ''help'', ''world''#}"
    by (simp add: example_tables_def)
  have upper: "matching_aliases example_tables ''Hel'' = []"
    by (simp add: matching_aliases_def select_aliases_def example_tables_def)
  from search_prefix_filter_sorted [of example_tables "''hel''"] names upper show ?thesis
    by simp
qed

text \<open>
  C7. When no name in the aliases table starts with the keyword, the search command
  raises the exception "couldn't find any aliases like" followed by the keyword in
  single quotes, and the state comes back as it was given: nothing was replied.
\<close>

theorem search_no_match:
  assumes "\<forall>r \<in> set (aliases (conn w)). \<not> (\<exists>rest. fst r = kw @ rest)"
  shows "search_execute py u w (kw # extra) =
           (Inl (Exception (''couldn't find any aliases like '' @ [CHR 0x27] @ kw @ [CHR 0x27])),
            w)"
proof -
  have "matching_aliases (conn w) kw = []"
    using assms matching_aliases_nonempty_iff [of "conn w" kw] by blast
  then show ?thesis
    by (simp add: search_execute_def)
qed

theorem search_no_match_witness:
  "\<not> (\<exists>r \<in> set (aliases (conn example_world)). \<exists>rest. fst r = ''zz'' @ rest) \<and>
   search_execute example_interp example_util example_world [''zz''] =
     (Inl (Exception (''couldn't find any aliases like '' @ [CHR 0x27] @ ''zz'' @ [CHR 0x27])),
      example_world)"
proof -
  have h: "\<forall>r \<in> set (aliases (conn example_world)). \<not> (\<exists>rest. fst r = ''zz'' @ rest)"
    by (simp add: example_world_def example_tables_def)
  from search_no_match [where py = example_interp and u = example_util and extra = "[]", OF h] h
  show ?thesis by simp
qed

text \<open>
  C5. When some alias matches the keyword and \<open>pages\<close> are the pages the pagination
  utility makes of the matches: with no second argument the first page is shown (the
  utility having made a page at all); with a second argument that \<^verbatim>\<open>int\<close> reads as the
  integer \<open>n\<close>, page \<open>n\<close> is shown when \<open>n\<close> lies between 1 and the number of pages,
  and the exception "invalid page number" is raised, with nothing replied, when it does
  not. What \<^verbatim>\<open>int\<close> reads is \<open>py_int\<close>, under any bound on the digits and any
  translation of the strings beyond ASCII.
\<close>

theorem search_page_selection:
  assumes "\<exists>r \<in> set (aliases (conn w)). \<exists>rest. fst r = kw @ rest"
    and "pages = into_pages u [''Alias'', ''Action'', ''Author'', ''Created'']
                   (matching_aliases (conn w) kw)"
  shows "(pages \<noteq> [] \<longrightarrow>
            search_execute py u w [kw] =
              (Inr (),
               reply (reply w (''Showing page 1 of '' @ py_str_int (int (length pages))))
                 (pages ! 0))) \<and>
         (py_int py p = Some n \<and> 1 \<le> n \<and> n \<le> int (length pages) \<longrightarrow>
            search_execute py u w (kw # p # extra) =
              (Inr (),
               reply (reply w (''Showing page '' @ py_str_int n @ '' of ''
                               @ py_str_int (int (length pages))))
                 (pages ! nat (n - 1)))) \<and>
         (py_int py p = Some n \<and> (n < 1 \<or> int (length pages) < n) \<longrightarrow>
            search_execute py u w (kw # p # extra) = (Inl (Exception ''invalid page number''), w))"
proof -
  have m: "matching_aliases (conn w) kw \<noteq> []"
    using assms(1) by (simp add: matching_aliases_nonempty_iff)
  have one: "py_str_int 1 = ''1''"
    by (simp add: py_str_int_def str_nat.simps)
  show ?thesis
  proof (intro conjI impI)
    assume "pages \<noteq> []"
    then show "search_execute py u w [kw] =
        (Inr (),
         reply (reply w (''Showing page 1 of '' @ py_str_int (int (length pages))))
           (pages ! 0))"
      using m by (simp add: search_execute_def assms(2) [symmetric] one)
  next
    assume "py_int py p = Some n \<and> 1 \<le> n \<and> n \<le> int (length pages)"
    then show "search_execute py u w (kw # p # extra) =
        (Inr (),
         reply (reply w (''Showing page '' @ py_str_int n @ '' of ''
                         @ py_str_int (int (length pages))))
           (pages ! nat (n - 1)))"
      using m by (simp add: search_execute_def assms(2) [symmetric])
  next
    assume "py_int py p = Some n \<and> (n < 1 \<or> int (length pages) < n)"
    then show "search_execute py u w (kw # p # extra) =
        (Inl (Exception ''invalid page number''), w)"
      using m by (auto simp add: search_execute_def assms(2) [symmetric])
  qed
qed

theorem search_page_selection_witness:
  "search_execute example_interp example_util example_world [''hel''] =
     (Inr (), example_world\<lparr>replies := [''Showing page 1 of 2'', ''hello'']\<rparr>) \<and>
   search_execute example_interp example_util example_world [''hel'', ''2''] =
     (Inr (), example_world\<lparr>replies := [''Showing page 2 of 2'', ''help'']\<rparr>) \<and>
   search_execute example_interp example_util example_world [''hel'', ''3''] =
     (Inl (Exception ''invalid page number''), example_world)"
proof -
  have m: "\<exists>r \<in> set (aliases (conn example_world)). \<exists>rest. fst r = ''hel'' @ rest"
    by (simp add: example_world_def example_tables_def)
  have pg: "[''hello'', ''help''] =
      into_pages example_util [''Alias'', ''Action'', ''Author'', ''Created'']
        (matching_aliases (conn example_world) ''hel'')"
    by (simp add: example_util_def matching_aliases_def select_aliases_def
        example_world_def example_tables_def)
  have py2: "py_int example_interp ''2'' = Some 2"
    and py3: "py_int example_interp ''3'' = Some 3"
    by (simp_all add: py_int_def is_ascii_def long_from_string_def strip_def is_space_def
        parse_number_def over_limit_def digit_val_def)
  have s2: "py_str_int 2 = ''2''"
    by (simp add: py_str_int_def str_nat.simps)
  have r: "replies example_world = []"
    by (simp add: example_world_def)
  from search_page_selection
      [where py = example_interp and p = "''2''" and n = 2 and extra = "[]", OF m pg]
    search_page_selection
      [where py = example_interp and p = "''3''" and n = 3 and extra = "[]", OF m pg]
  show ?thesis
    by (simp add: py2 py3 s2 r reply_def)
qed

text \<open>
  C10. When some alias matches the keyword and \<^verbatim>\<open>int\<close> does not read the second
  argument as an integer, the search command raises \<^verbatim>\<open>ValueError\<close>, which is not the
  "invalid page number" exception, and the state comes back as it was given: nothing was
  replied. What \<^verbatim>\<open>int\<close> does not read is decided by \<open>py_int\<close>, under any bound on the
  digits and any translation of the strings beyond ASCII.
\<close>

theorem search_page_not_integer:
  assumes "\<exists>r \<in> set (aliases (conn w)). \<exists>rest. fst r = kw @ rest"
    and "py_int py p = None"
  shows "search_execute py u w (kw # p # extra) = (Inl (ValueError p), w) \<and>
         ValueError p \<noteq> Exception ''invalid page number''"
proof -
  have "matching_aliases (conn w) kw \<noteq> []"
    using assms(1) by (simp add: matching_aliases_nonempty_iff)
  then show ?thesis
    by (simp add: search_execute_def assms(2))
qed

theorem search_page_not_integer_witness:
  "(\<exists>r \<in> set (aliases (conn example_world)). \<exists>rest. fst r = ''hel'' @ rest) \<and>
   py_int example_interp ''abc'' = None \<and>
   search_execute example_interp example_util example_world [''hel'', ''abc''] =
     (Inl (ValueError ''abc''), example_world) \<and>
   search_execute example_interp example_util example_world [''hel'', [CHR 0x1C, CHR ''2'']] =
     (Inl (ValueError [CHR 0x1C, CHR ''2'']), example_world)"
proof -
  have m: "\<exists>r \<in> set (aliases (conn example_world)). \<exists>rest. fst r = ''hel'' @ rest"
    by (simp add: example_world_def example_tables_def)
  have n: "py_int example_interp ''abc'' = None"
    by (rule py_int_rejects [of _ "CHR ''a''"])
       (simp_all add: is_ascii_def digit_val_def is_space_def)
  have s: "py_int example_interp [CHR 0x1C, CHR ''2''] = None"
    by (rule py_int_separator)
  from search_page_not_integer [where u = example_util and extra = "[]", OF m n]
    search_page_not_integer [where u = example_util and extra = "[]", OF m s] m n
  show ?thesis by simp
qed

end
